theory Spec2Isabelle
  imports Main
begin

section \<open>JavaScript strings and errors\<close>

text \<open>
  The crawler of \<^verbatim>\<open>src/crawler/index.ts\<close> is embedded function by function.
  A JavaScript string is a \<open>string\<close> (a list of 8-bit characters); the string methods
  the source calls are written out below on that type.
\<close>

datatype js_error = RangeError | TypeError | TimeoutError | NavigationError

definition upper_char :: "char \<Rightarrow> char" where
  "upper_char c =
     (case map_of (zip ''abcdefghijklmnopqrstuvwxyz'' ''ABCDEFGHIJKLMNOPQRSTUVWXYZ'') c of
        Some u \<Rightarrow> u
      | None \<Rightarrow> c)"

definition lower_char :: "char \<Rightarrow> char" where
  "lower_char c =
     (case map_of (zip ''ABCDEFGHIJKLMNOPQRSTUVWXYZ'' ''abcdefghijklmnopqrstuvwxyz'') c of
        Some u \<Rightarrow> u
      | None \<Rightarrow> c)"

text \<open>The conversions that the DOM standard calls ASCII uppercase and ASCII lowercase.\<close>

definition ascii_uppercase :: "string \<Rightarrow> string" where
  "ascii_uppercase s = map upper_char s"

definition ascii_lowercase :: "string \<Rightarrow> string" where
  "ascii_lowercase s = map lower_char s"

definition is_ascii :: "char \<Rightarrow> bool" where
  "is_ascii c = (\<not> digit7 c)"

text \<open>
  \<open>s.toUpperCase()\<close> follows the case mappings of Unicode, which are tables of the
  engine and not of this program. On a string of ASCII characters it is the ASCII
  conversion. On any other string the result is taken from the parameter \<open>unicode\<close>,
  which stands for the conversion of the engine; every function that upper-cases takes
  this parameter, and nothing is assumed about it.
\<close>

definition toUpperCase :: "(string \<Rightarrow> string) \<Rightarrow> string \<Rightarrow> string" where
  "toUpperCase unicode s = (if list_all is_ascii s then ascii_uppercase s else unicode s)"

text \<open>\<open>s.repeat(n)\<close> throws a RangeError when the count is negative.\<close>

definition repeat :: "string \<Rightarrow> int \<Rightarrow> js_error + string" where
  "repeat s n = (if n < 0 then Inl RangeError else Inr (concat (replicate (nat n) s)))"

text \<open>\<open>s.startsWith(p)\<close> and \<open>s.includes(p)\<close> (\<open>includes_str\<close>: the test for a substring).\<close>

definition startsWith :: "string \<Rightarrow> string \<Rightarrow> bool" where
  "startsWith s p = (take (length p) s = p)"

fun includes_str :: "string \<Rightarrow> string \<Rightarrow> bool" where
  "includes_str [] p = (p = [])"
| "includes_str (c # s) p = (startsWith (c # s) p \<or> includes_str s p)"

text \<open>
  \<open>s.trim()\<close> removes the white space at both ends. In the 8-bit range the white space
  and line terminator characters of JavaScript are tab, line feed, vertical tab, form
  feed, carriage return, space and the no-break space.
\<close>

definition is_space :: "char \<Rightarrow> bool" where
  "is_space c = (c \<in> set [CHR 0x09, CHR 0x0A, CHR 0x0B, CHR 0x0C, CHR 0x0D, CHR 0x20, CHR 0xA0])"

definition trim :: "string \<Rightarrow> string" where
  "trim s = rev (dropWhile is_space (rev (dropWhile is_space s)))"

section \<open>The page record and its rendering\<close>

text \<open>
  \<open>interface PageData\<close>. A field of type \<open>string | null\<close> is a \<open>string option\<close>; the
  \<open>number\<close> of a heading level is an \<open>int\<close>. The fields of the element records carry a
  prefix, since the source reuses the names \<open>type\<close>, \<open>text\<close> and \<open>id\<close>.
\<close>

record heading =
  h_level :: int
  h_text :: string
  h_id :: "string option"

record link =
  l_text :: string
  l_href :: string

record input_element =
  i_type :: string
  i_text :: string
  i_placeholder :: "string option"

record button_element =
  b_type :: string
  b_text :: string

record form_element =
  f_type :: string
  f_text :: string

record interactive_element =
  e_type :: string
  e_text :: string
  e_id :: "string option"

record PageData =
  title :: string
  url :: string
  textContent :: string
  headings :: "heading list"
  linkElements :: "link list"
  inputElements :: "input_element list"
  buttonElements :: "button_element list"
  formElements :: "form_element list"
  interactiveElements :: "interactive_element list"

text \<open>
  A value of type \<open>string | null\<close> in a condition is true when it is a non-empty
  string; \<open>if (s)\<close> on a \<open>string\<close> is \<open>s \<noteq> []\<close>.
\<close>

definition truthy :: "string option \<Rightarrow> bool" where
  "truthy v = (case v of None \<Rightarrow> False | Some s \<Rightarrow> s \<noteq> [])"

text \<open>
  Each \<open>forEach\<close> of \<open>formatForLLM\<close> is a recursion over the array that threads the
  variable \<open>formatted\<close>. The loop over the headings can throw, from \<open>repeat\<close>. The
  loops that call \<open>toUpperCase\<close> take its parameter \<open>unicode\<close>.
\<close>

fun headings_loop :: "heading list \<Rightarrow> string \<Rightarrow> js_error + string" where
  "headings_loop [] formatted = Inr formatted"
| "headings_loop (h # hs) formatted =
     (case repeat ''  '' (h_level h - 1) of
        Inl e \<Rightarrow> Inl e
      | Inr indent \<Rightarrow> headings_loop hs (formatted @ indent @ ''- '' @ h_text h @ ''\<newline>''))"

fun links_loop :: "link list \<Rightarrow> string \<Rightarrow> string" where
  "links_loop [] formatted = formatted"
| "links_loop (nav # navs) formatted =
     links_loop navs
       (if l_text nav \<noteq> [] then formatted @ ''- '' @ l_text nav @ '': '' @ l_href nav @ ''\<newline>''
        else formatted)"

definition interactive_step :: "(string \<Rightarrow> string) \<Rightarrow> interactive_element \<Rightarrow> string \<Rightarrow> string" where
  "interactive_step unicode element formatted =
     (if e_text element \<noteq> [] then
        (let formatted1 = formatted @ ''- **'' @ toUpperCase unicode (e_type element) @ ''**: \"''
                            @ e_text element @ ''\"'';
             formatted2 = (if truthy (e_id element)
                           then formatted1 @ '' (ID: '' @ the (e_id element) @ '')''
                           else formatted1)
         in formatted2 @ ''\<newline>'')
      else formatted)"

fun interactive_loop :: "(string \<Rightarrow> string) \<Rightarrow> interactive_element list \<Rightarrow> string \<Rightarrow> string" where
  "interactive_loop unicode [] formatted = formatted"
| "interactive_loop unicode (element # elements) formatted =
     interactive_loop unicode elements (interactive_step unicode element formatted)"

fun inputs_loop :: "(string \<Rightarrow> string) \<Rightarrow> input_element list \<Rightarrow> string \<Rightarrow> string" where
  "inputs_loop unicode [] formatted = formatted"
| "inputs_loop unicode (inputElement # rest) formatted =
     inputs_loop unicode rest
       (formatted @ ''- **'' @ toUpperCase unicode (i_type inputElement) @ ''**: \"''
          @ (if truthy (i_placeholder inputElement)
             then ''\"'' @ the (i_placeholder inputElement) @ ''\"'' else [])
          @ '' '' @ i_text inputElement @ ''\"'' @ ''\<newline>'')"

fun buttons_loop :: "(string \<Rightarrow> string) \<Rightarrow> button_element list \<Rightarrow> string \<Rightarrow> string" where
  "buttons_loop unicode [] formatted = formatted"
| "buttons_loop unicode (buttonElement # rest) formatted =
     buttons_loop unicode rest
       (formatted @ ''- **'' @ toUpperCase unicode (b_type buttonElement) @ ''**: \"''
          @ b_text buttonElement @ ''\"'' @ ''\<newline>'')"

fun forms_loop :: "(string \<Rightarrow> string) \<Rightarrow> form_element list \<Rightarrow> string \<Rightarrow> string" where
  "forms_loop unicode [] formatted = formatted"
| "forms_loop unicode (formElement # rest) formatted =
     forms_loop unicode rest
       (formatted @ ''- **'' @ toUpperCase unicode (f_type formElement) @ ''**: \"''
          @ f_text formElement @ ''\"'' @ ''\<newline>'')"

text \<open>The blocks of \<open>formatForLLM\<close>, in the order of the source, each applied to \<open>formatted\<close>.\<close>

definition add_title_url :: "'a PageData_scheme \<Rightarrow> string" where
  "add_title_url d =
     (''# '' @ title d @ ''\<newline>\<newline>'') @ ''**URL:** '' @ url d @ ''\<newline>\<newline>''"

definition add_page_structure :: "'a PageData_scheme \<Rightarrow> string \<Rightarrow> js_error + string" where
  "add_page_structure d formatted =
     (if length (headings d) > 0 then
        (case headings_loop (headings d) (formatted @ ''## Page Structure\<newline>\<newline>'') of
           Inl e \<Rightarrow> Inl e
         | Inr formatted1 \<Rightarrow> Inr (formatted1 @ ''\<newline>''))
      else Inr formatted)"

definition add_navigation :: "'a PageData_scheme \<Rightarrow> string \<Rightarrow> string" where
  "add_navigation d formatted =
     (if length (linkElements d) > 0 then
        links_loop (linkElements d) (formatted @ ''## Available Navigation\<newline>\<newline>'')
          @ ''\<newline>''
      else formatted)"

definition add_interactive :: "(string \<Rightarrow> string) \<Rightarrow> 'a PageData_scheme \<Rightarrow> string \<Rightarrow> string" where
  "add_interactive unicode d formatted =
     (if length (interactiveElements d) > 0 then
        interactive_loop unicode (interactiveElements d)
            (formatted @ ''## Interactive Elements\<newline>\<newline>'')
          @ ''\<newline>''
      else formatted)"

definition add_inputs :: "(string \<Rightarrow> string) \<Rightarrow> 'a PageData_scheme \<Rightarrow> string \<Rightarrow> string" where
  "add_inputs unicode d formatted =
     (if length (inputElements d) > 0 then
        inputs_loop unicode (inputElements d) (formatted @ ''## Input Elements\<newline>\<newline>'')
      else formatted)"

definition add_buttons :: "(string \<Rightarrow> string) \<Rightarrow> 'a PageData_scheme \<Rightarrow> string \<Rightarrow> string" where
  "add_buttons unicode d formatted =
     (if length (buttonElements d) > 0 then
        buttons_loop unicode (buttonElements d) (formatted @ ''## Button Elements\<newline>\<newline>'')
      else formatted)"

definition add_forms :: "(string \<Rightarrow> string) \<Rightarrow> 'a PageData_scheme \<Rightarrow> string \<Rightarrow> string" where
  "add_forms unicode d formatted =
     (if length (formElements d) > 0 then
        forms_loop unicode (formElements d) (formatted @ ''## Form Elements\<newline>\<newline>'')
      else formatted)"

definition formatForLLM :: "(string \<Rightarrow> string) \<Rightarrow> 'a PageData_scheme \<Rightarrow> js_error + string" where
  "formatForLLM unicode d =
     (case add_page_structure d (add_title_url d) of
        Inl e \<Rightarrow> Inl e
      | Inr formatted \<Rightarrow>
          Inr (add_forms unicode d (add_buttons unicode d (add_inputs unicode d
                 (add_interactive unicode d (add_navigation d formatted))))
               @ ''## Page Content\<newline>\<newline>'' @ textContent d))"

section \<open>The document and the sanitizer pass\<close>

text \<open>
  The callback of \<open>page.evaluate\<close> works on the live document through the DOM interface
  of the browser. The document is a tree of element, text and comment nodes: an element
  has its local name (in lower case, as the HTML parser stores it), its attributes in
  order, each a name and a value, and its children. A \<open>template\<close> element has, besides
  its attributes and children, its template contents: that is where the parser puts what
  is written inside the tag, and it is a fragment outside the tree of the document.
  Selectors, \<open>el.children\<close>, \<open>textContent\<close> and a tree walker see the children of a
  template and never its contents; the serialization writes its contents and never its
  children. A node \<open>Element\<close> with the name \<open>template\<close> is a template without contents.
  \<open>document.body\<close> is given by the list of the children of the body element, or is
  \<open>null\<close> (\<open>None\<close>).
\<close>

datatype node =
  Element string "(string \<times> string) list" "node list"
| Template "(string \<times> string) list" "node list" "node list"
| Text string
| Comment string

fun is_element :: "node \<Rightarrow> bool" where
  "is_element (Element t as cs) = True"
| "is_element (Template as cs content) = True"
| "is_element n = False"

fun is_comment :: "node \<Rightarrow> bool" where
  "is_comment (Comment s) = True"
| "is_comment n = False"

fun localName :: "node \<Rightarrow> string" where
  "localName (Element t as cs) = t"
| "localName (Template as cs content) = ''template''"
| "localName n = []"

fun attributes :: "node \<Rightarrow> (string \<times> string) list" where
  "attributes (Element t as cs) = as"
| "attributes (Template as cs content) = as"
| "attributes n = []"

fun childNodes :: "node \<Rightarrow> node list" where
  "childNodes (Element t as cs) = cs"
| "childNodes (Template as cs content) = cs"
| "childNodes n = []"

text \<open>\<open>el.tagName\<close> of an HTML element is its name in ASCII uppercase; \<open>el.children\<close> are
  the element children.\<close>

definition tagName :: "node \<Rightarrow> string" where
  "tagName n = ascii_uppercase (localName n)"

definition children :: "node \<Rightarrow> node list" where
  "children n = filter is_element (childNodes n)"

definition hasAttribute :: "node \<Rightarrow> string \<Rightarrow> bool" where
  "hasAttribute n name = (name \<in> set (map fst (attributes n)))"

text \<open>\<open>el.id\<close> is the value of the first attribute named \<open>id\<close>, and the empty string
  when there is none.\<close>

definition el_id :: "node \<Rightarrow> string" where
  "el_id n = (case map_of (attributes n) ''id'' of None \<Rightarrow> [] | Some v \<Rightarrow> v)"

text \<open>\<open>node.textContent\<close>: the text of the descendants in document order, comments left out.\<close>

fun node_textContent :: "node \<Rightarrow> string" where
  "node_textContent (Element t as cs) = concat (map node_textContent cs)"
| "node_textContent (Template as cs content) = concat (map node_textContent cs)"
| "node_textContent (Text s) = s"
| "node_textContent (Comment s) = []"

text \<open>\<open>el.removeAttribute(name)\<close> on an HTML element puts \<open>name\<close> in ASCII lowercase
  and removes the first attribute that has exactly that name.\<close>

fun remove_first :: "string \<Rightarrow> (string \<times> string) list \<Rightarrow> (string \<times> string) list" where
  "remove_first name [] = []"
| "remove_first name (a # as) = (if fst a = name then as else a # remove_first name as)"

definition removeAttribute :: "string \<Rightarrow> (string \<times> string) list \<Rightarrow> (string \<times> string) list" where
  "removeAttribute name as = remove_first (ascii_lowercase name) as"

text \<open>
  \<open>querySelectorAll\<close> returns a static list in document order, and \<open>el.remove()\<close>
  detaches the element with its subtree. A pass
  \<^verbatim>\<open>document.querySelectorAll(sel).forEach((el) => { if (cond(el)) el.remove(); })\<close>
  therefore visits an element before its descendants, and a removal changes neither the
  subtree nor the attributes of an element visited later: every element is judged on
  the subtree it had when the pass began. \<open>remove_where P\<close> is that pass on one node,
  \<open>P\<close> being "matches \<open>sel\<close> and satisfies \<open>cond\<close>"; \<open>remove_all P\<close> is the pass on the
  children of the body. The contents of a template are not in the list and stay as
  they are.
\<close>

fun remove_where :: "(node \<Rightarrow> bool) \<Rightarrow> node \<Rightarrow> node" where
  "remove_where P (Element t as cs) = Element t as (map (remove_where P) (filter (\<lambda>c. \<not> P c) cs))"
| "remove_where P (Template as cs content) =
     Template as (map (remove_where P) (filter (\<lambda>c. \<not> P c) cs)) content"
| "remove_where P (Text s) = Text s"
| "remove_where P (Comment s) = Comment s"

definition remove_all :: "(node \<Rightarrow> bool) \<Rightarrow> node list \<Rightarrow> node list" where
  "remove_all P ns = map (remove_where P) (filter (\<lambda>c. \<not> P c) ns)"

text \<open>A selector that is a list of type selectors.\<close>

definition matches_tags :: "string list \<Rightarrow> node \<Rightarrow> bool" where
  "matches_tags tags n = (is_element n \<and> localName n \<in> set tags)"

text \<open>Remove non-semantic elements.\<close>

definition elementsToRemove :: "string list" where
  "elementsToRemove =
     [''script'', ''style'', ''noscript'', ''svg'', ''img'', ''br'', ''hr'', ''canvas'', ''video'',
      ''audio'', ''picture'', ''source'', ''next-route-announcer'']"

definition remove_non_semantic :: "node list \<Rightarrow> node list" where
  "remove_non_semantic body = remove_all (matches_tags elementsToRemove) body"

text \<open>Remove HTML comments: the tree walker collects every comment under the body, and
  each is then removed from its parent.\<close>

definition remove_comments :: "node list \<Rightarrow> node list" where
  "remove_comments body = remove_all is_comment body"

text \<open>Clean attributes: on every element, the loop over a copy of its attributes that
  removes the \<open>data-*\<close> ones, then the removal of the listed names.\<close>

definition attributesToRemove :: "string list" where
  "attributesToRemove =
     [''class'', ''style'', ''tabindex'', ''aria-expanded'', ''aria-selected'', ''aria-haspopup'',
      ''aria-atomic'', ''aria-live'', ''aria-relevant'', ''target'', ''rel'', ''spellcheck'',
      ''draggable'', ''contenteditable'', ''aria-label'']"

fun remove_data_loop :: "(string \<times> string) list \<Rightarrow> (string \<times> string) list \<Rightarrow> (string \<times> string) list" where
  "remove_data_loop [] cur = cur"
| "remove_data_loop (attr # rest) cur =
     remove_data_loop rest
       (if startsWith (fst attr) ''data-'' then removeAttribute (fst attr) cur else cur)"

fun remove_listed_loop :: "string list \<Rightarrow> (string \<times> string) list \<Rightarrow> (string \<times> string) list" where
  "remove_listed_loop [] cur = cur"
| "remove_listed_loop (attr # rest) cur = remove_listed_loop rest (removeAttribute attr cur)"

definition clean_element :: "(string \<times> string) list \<Rightarrow> (string \<times> string) list" where
  "clean_element as = remove_listed_loop attributesToRemove (remove_data_loop as as)"

fun clean_attributes :: "node \<Rightarrow> node" where
  "clean_attributes (Element t as cs) = Element t (clean_element as) (map clean_attributes cs)"
| "clean_attributes (Template as cs content) =
     Template (clean_element as) (map clean_attributes cs) content"
| "clean_attributes (Text s) = Text s"
| "clean_attributes (Comment s) = Comment s"

text \<open>
  Remove empty elements. The pseudo-class \<open>:empty\<close> matches an element that has no
  element child and no text node of non-zero length; a text node of white space makes an
  element non-empty.
\<close>

fun blank_child :: "node \<Rightarrow> bool" where
  "blank_child (Element t as cs) = False"
| "blank_child (Template as cs content) = False"
| "blank_child (Text s) = (s = [])"
| "blank_child (Comment s) = True"

definition pseudo_empty :: "node \<Rightarrow> bool" where
  "pseudo_empty n = list_all blank_child (childNodes n)"

definition emptyElements :: "node \<Rightarrow> bool" where
  "emptyElements n = (matches_tags [''div'', ''span'', ''p''] n \<and> pseudo_empty n)"

definition remove_empty :: "node list \<Rightarrow> node list" where
  "remove_empty body =
     remove_all (\<lambda>el. emptyElements el \<and>
                   (el_id el = [] \<and> \<not> hasAttribute el ''href'' \<and> \<not> hasAttribute el ''type'')) body"

text \<open>Simplify nested empty containers.\<close>

definition hasOnlyEmptyChildren :: "node \<Rightarrow> bool" where
  "hasOnlyEmptyChildren container =
     list_all (\<lambda>child. (tagName child = ''DIV'' \<or> tagName child = ''SPAN'') \<and>
                        trim (node_textContent child) = [] \<and>
                        \<not> hasAttribute child ''href'' \<and>
                        \<not> hasAttribute child ''type'')
       (children container)"

definition simplify_containers :: "node list \<Rightarrow> node list" where
  "simplify_containers body =
     remove_all (\<lambda>container. matches_tags [''div'', ''span''] container \<and>
                   (hasOnlyEmptyChildren container \<and> trim (node_textContent container) = [])) body"

text \<open>The five passes in the order of the source.\<close>

definition sanitize :: "node list \<Rightarrow> node list" where
  "sanitize body =
     simplify_containers (remove_empty (map clean_attributes
       (remove_comments (remove_non_semantic body))))"

text \<open>
  \<open>document.body.innerHTML\<close> is the serialization of the children of the body by the
  fragment serialization algorithm of the HTML standard: text and attribute values are
  escaped, a void element has no end tag, the text inside a raw text element is written
  as it is, and for a template element the template contents are written in the place of
  its children.
\<close>

definition voidElements :: "string list" where
  "voidElements =
     [''area'', ''base'', ''basefont'', ''bgsound'', ''br'', ''col'', ''embed'', ''frame'', ''hr'',
      ''img'', ''input'', ''keygen'', ''link'', ''meta'', ''param'', ''source'', ''track'', ''wbr'']"

definition rawTextElements :: "string list" where
  "rawTextElements =
     [''style'', ''script'', ''xmp'', ''iframe'', ''noembed'', ''noframes'', ''plaintext'',
      ''noscript'']"

definition escape_char :: "bool \<Rightarrow> char \<Rightarrow> string" where
  "escape_char attributeMode c =
     (if c = CHR ''&'' then ''&amp;''
      else if c = CHR 0xA0 then ''&nbsp;''
      else if c = CHR ''<'' then ''&lt;''
      else if c = CHR ''>'' then ''&gt;''
      else if attributeMode \<and> c = CHR 0x22 then ''&quot;''
      else [c])"

definition escape :: "bool \<Rightarrow> string \<Rightarrow> string" where
  "escape attributeMode s = concat (map (escape_char attributeMode) s)"

definition serialize_attribute :: "string \<times> string \<Rightarrow> string" where
  "serialize_attribute a = '' '' @ fst a @ ''=\"'' @ escape True (snd a) @ ''\"''"

fun serialize :: "bool \<Rightarrow> node \<Rightarrow> string" where
  "serialize raw (Element t as cs) =
     ''<'' @ t @ concat (map serialize_attribute as) @ ''>'' @
     (if t \<in> set voidElements then []
      else (if t = ''template'' then []
            else concat (map (serialize (t \<in> set rawTextElements)) cs)) @ ''</'' @ t @ ''>'')"
| "serialize raw (Template as cs content) =
     ''<template'' @ concat (map serialize_attribute as) @ ''>'' @
     concat (map (serialize False) content) @ ''</template>''"
| "serialize raw (Text s) = (if raw then s else escape False s)"
| "serialize raw (Comment s) = ''<!--'' @ s @ ''-->''"

definition innerHTML :: "node list \<Rightarrow> string" where
  "innerHTML body = concat (map (serialize False) body)"

text \<open>
  The callback as a whole: \<open>createTreeWalker\<close> throws a TypeError when
  \<open>document.body\<close> is \<open>null\<close>; otherwise the result is the field \<open>html\<close>.
\<close>

definition page_evaluate :: "node list option \<Rightarrow> js_error + string" where
  "page_evaluate body =
     (case body of
        None \<Rightarrow> Inl TypeError
      | Some b \<Rightarrow> Inr (innerHTML (sanitize b)))"

section \<open>The request handler and the crawl\<close>

text \<open>
  What \<open>requestHandler\<close> reads of its crawling context: \<open>request.loadedUrl\<close>
  (\<open>string | undefined\<close>), the title of the page, whether the page reaches the
  network-idle state before the timeout, \<open>document.body\<close>, the absolute URLs that
  \<open>enqueueLinks\<close> finds on the page and keeps under its default strategy, and the
  string that \<open>new Date().toISOString()\<close> returns when the record is pushed.
\<close>

record crawling_context =
  loadedUrl :: "string option"
  page_title :: string
  networkidle :: bool
  document_body :: "node list option"
  anchors :: "string list"
  now :: string

text \<open>The object given to \<open>Dataset.pushData\<close>.\<close>

record dataset_item =
  item_title :: string
  item_url :: "string option"
  item_timestamp :: string
  item_html :: string

text \<open>
  The handler ends in one of three ways: it returns before the extraction (the page is
  skipped), it throws, or it pushes one record and enqueues links.
\<close>

datatype outcome =
  Skipped
| Failed js_error
| Extracted dataset_item "string list"

text \<open>
  The \<open>exclude\<close> option of \<open>enqueueLinks\<close> holds one regular expression,
  \<^verbatim>\<open>/https:\/\/qrticket\.app\/e\//\<close>. It has no anchor and every character of it is
  a literal, so it matches the URLs that contain the text below.
\<close>

definition exclude_literal :: string where
  "exclude_literal = ''https://qrticket.app/e/''"

definition exclude_matches :: "string \<Rightarrow> bool" where
  "exclude_matches u = includes_str u exclude_literal"

definition enqueueLinks :: "string list \<Rightarrow> string list" where
  "enqueueLinks links = filter (\<lambda>u. \<not> exclude_matches u) links"

definition template_url :: "string option \<Rightarrow> string" where
  "template_url v = (case v of None \<Rightarrow> ''undefined'' | Some s \<Rightarrow> s)"

text \<open>\<open>requestHandler\<close> returns the lines it logs and the way it ends.\<close>

definition requestHandler :: "crawling_context \<Rightarrow> string list \<times> outcome" where
  "requestHandler ctx =
     (if truthy (loadedUrl ctx) \<and> includes_str (the (loadedUrl ctx)) ''/e/'' then
        ([''Skipping event page: '' @ template_url (loadedUrl ctx)], Skipped)
      else
        (let title = page_title ctx;
             log1 = ''Title of '' @ template_url (loadedUrl ctx) @ '' is '' @ [CHR 0x27] @ title @ [CHR 0x27]
         in if \<not> networkidle ctx then ([log1], Failed TimeoutError)
            else (case page_evaluate (document_body ctx) of
                    Inl e \<Rightarrow> ([log1], Failed e)
                  | Inr html \<Rightarrow>
                      ([log1],
                       Extracted \<lparr>item_title = title, item_url = loadedUrl ctx,
                                  item_timestamp = now ctx, item_html = html\<rparr>
                                 (enqueueLinks (anchors ctx))))))"

text \<open>
  The crawl itself is run by the crawler library, which the source configures with
  \<open>maxRequestsPerCrawl: 100\<close> and starts on one URL. Its loop is modelled as a work
  list: a request is taken from the queue, the browser navigates (\<open>web u\<close> is the
  crawling context the navigation to \<open>u\<close> ends in, or \<open>None\<close> when it fails), the
  handler runs, and the links it enqueued that were never queued before (\<open>seen\<close> holds
  every URL queued so far) join the queue.
  The result is the list of the requests handled, each with the way it ended.
\<close>

definition fresh_links :: "string list \<Rightarrow> outcome \<Rightarrow> string list" where
  "fresh_links seen out =
     (case out of
        Extracted item links \<Rightarrow> remdups (filter (\<lambda>l. l \<notin> set seen) links)
      | _ \<Rightarrow> [])"

fun crawl :: "(string \<Rightarrow> crawling_context option) \<Rightarrow> nat \<Rightarrow> string list \<Rightarrow> string list \<Rightarrow> (string \<times> outcome) list" where
  "crawl web 0 queue seen = []"
| "crawl web (Suc budget) [] seen = []"
| "crawl web (Suc budget) (u # queue) seen =
     (case web u of
        None \<Rightarrow> (u, Failed NavigationError) # crawl web budget queue seen
      | Some ctx \<Rightarrow>
          (let out = snd (requestHandler ctx); new = fresh_links seen out
           in (u, out) # crawl web budget (queue @ new) (seen @ new)))"

definition maxRequestsPerCrawl :: nat where
  "maxRequestsPerCrawl = 100"

definition start_url :: string where
  "start_url = ''https://qrticket.app/dashboard''"

definition main :: "(string \<Rightarrow> crawling_context option) \<Rightarrow> (string \<times> outcome) list" where
  "main web = crawl web maxRequestsPerCrawl [start_url] [start_url]"

section \<open>What the properties are stated with\<close>

text \<open>The lines that the loops of \<open>formatForLLM\<close> write for one element.\<close>

definition heading_line :: "heading \<Rightarrow> string" where
  "heading_line h = replicate (2 * nat (h_level h - 1)) CHR '' '' @ ''- '' @ h_text h @ ''\<newline>''"









text \<open>Every string that a run of the handler hands on: the log lines, the fields of the
  pushed record and the enqueued URLs.\<close>

definition emitted :: "string list \<times> outcome \<Rightarrow> string list" where
  "emitted r =
     fst r @
     (case snd r of
        Extracted item links \<Rightarrow>
          [item_title item, template_url (item_url item), item_timestamp item, item_html item] @ links
      | _ \<Rightarrow> [])"

section \<open>Example inputs\<close>

text \<open>The document of \<^verbatim>\<open><div><span></span><p>  </p><a href="/x">Go</a></div>\<close>.\<close>

definition example_fragment :: "node list" where
  "example_fragment =
     [Element ''div'' []
        [Element ''span'' [] [],
         Element ''p'' [] [Text ''  ''],
         Element ''a'' [(''href'', ''/x'')] [Text ''Go'']]]"



text \<open>
  In the example records below every kind is a string of ASCII characters, so that the
  conversion of the engine is not consulted; where a term without variables is needed,
  the parameter \<open>unicode\<close> is the ASCII conversion.
\<close>

definition empty_page :: PageData where
  "empty_page =
     \<lparr>title = ''T'', url = ''u'', textContent = ''body'', headings = [], linkElements = [],
      inputElements = [], buttonElements = [], formElements = [], interactiveElements = []\<rparr>"

definition input_only_page :: PageData where
  "input_only_page =
     empty_page\<lparr>inputElements := [\<lparr>i_type = ''text'', i_text = ''Name'', i_placeholder = None\<rparr>]\<rparr>"



definition events_page :: PageData where
  "events_page =
     empty_page\<lparr>headings := [\<lparr>h_level = 1, h_text = ''Events'', h_id = None\<rparr>,
                             \<lparr>h_level = 2, h_text = ''Upcoming'', h_id = None\<rparr>]\<rparr>"

text \<open>A site of two pages: the dashboard links to an event page and to a page that
  redirects to an event page.\<close>

definition dashboard_context :: crawling_context where
  "dashboard_context =
     \<lparr>loadedUrl = Some ''https://qrticket.app/dashboard'', page_title = ''Dashboard'',
      networkidle = True, document_body = Some example_fragment,
      anchors = [''https://qrticket.app/e/42'', ''https://qrticket.app/events''],
      now = ''2025-01-01T00:00:00.000Z''\<rparr>"

definition redirected_context :: crawling_context where
  "redirected_context =
     \<lparr>loadedUrl = Some ''https://qrticket.app/e/7'', page_title = ''Event'',
      networkidle = True, document_body = Some [],
      anchors = [], now = ''2025-01-01T00:00:02.000Z''\<rparr>"

definition example_web :: "string \<Rightarrow> crawling_context option" where
  "example_web u =
     (if u = ''https://qrticket.app/dashboard'' then Some dashboard_context
      else if u = ''https://qrticket.app/events'' then Some redirected_context
      else None)"

text \<open>The page record of the dashboard page above, by the extraction rules of the
  specification.\<close>

definition dashboard_record :: PageData where
  "dashboard_record =
     \<lparr>title = ''Dashboard'', url = ''https://qrticket.app/dashboard'',
      textContent = ''Go'', headings = [],
      linkElements = [\<lparr>l_text = ''Go'', l_href = ''/x''\<rparr>],
      inputElements = [], buttonElements = [], formElements = [], interactiveElements = []\<rparr>"

section \<open>Lemmas on the loops of the formatter\<close>

lemma repeat_two_spaces: "0 \<le> n \<Longrightarrow> repeat ''  '' n = Inr (replicate (2 * nat n) CHR '' '')"
proof -
  have "concat (replicate k ''  '') = replicate (2 * k) CHR '' ''" for k
    by (induction k) simp_all
  then show "0 \<le> n \<Longrightarrow> repeat ''  '' n = Inr (replicate (2 * nat n) CHR '' '')"
    by (simp add: repeat_def)
qed

lemma headings_loop_lines:
  "list_all (\<lambda>h. 1 \<le> h_level h) hs \<Longrightarrow>
     headings_loop hs formatted = Inr (formatted @ concat (map heading_line hs))"
proof (induction hs arbitrary: formatted)
  case Nil
  then show ?case by simp
next
  case (Cons h hs)
  then have "repeat ''  '' (h_level h - 1) = Inr (replicate (2 * nat (h_level h - 1)) CHR '' '')"
    by (simp add: repeat_two_spaces)
  with Cons show ?case by (simp add: heading_line_def)
qed




section \<open>Lemmas on the passes of the sanitizer\<close>


























section \<open>Lemmas on the handler and the crawl\<close>

lemma startsWith_iff: "startsWith s p \<longleftrightarrow> (\<exists>b. s = p @ b)"
proof
  assume "startsWith s p"
  then have "s = p @ drop (length p) s"
    by (metis append_take_drop_id startsWith_def)
  then show "\<exists>b. s = p @ b" ..
next
  assume "\<exists>b. s = p @ b"
  then show "startsWith s p" by (auto simp: startsWith_def)
qed

lemma includes_str_iff: "includes_str s p \<longleftrightarrow> (\<exists>a b. s = a @ p @ b)"
proof (induction s)
  case Nil
  then show ?case by simp
next
  case (Cons c s)
  show ?case
  proof
    assume "includes_str (c # s) p"
    then consider "startsWith (c # s) p" | "includes_str s p" by auto
    then show "\<exists>a b. c # s = a @ p @ b"
    proof cases
      case 1
      then obtain b where "c # s = p @ b" using startsWith_iff by blast
      then have "c # s = [] @ p @ b" by simp
      then show ?thesis by blast
    next
      case 2
      then obtain a b where "s = a @ p @ b" using Cons.IH by blast
      then have "c # s = (c # a) @ p @ b" by simp
      then show ?thesis by blast
    qed
  next
    assume "\<exists>a b. c # s = a @ p @ b"
    then obtain a b where ab: "c # s = a @ p @ b" by blast
    show "includes_str (c # s) p"
    proof (cases a)
      case Nil
      with ab have "startsWith (c # s) p" using startsWith_iff by auto
      then show ?thesis by simp
    next
      case (Cons x a')
      with ab have "s = a' @ p @ b" by simp
      then have "includes_str s p" using Cons.IH by blast
      then show ?thesis by simp
    qed
  qed
qed

lemma exclude_matches_includes: "exclude_matches u \<Longrightarrow> includes_str u ''/e/''"
proof -
  assume "exclude_matches u"
  then obtain a b where "u = a @ exclude_literal @ b"
    using includes_str_iff by (auto simp: exclude_matches_def)
  then have "u = (a @ ''https://qrticket.app'') @ ''/e/'' @ b"
    by (simp add: exclude_literal_def)
  then show "includes_str u ''/e/''" using includes_str_iff by blast
qed

lemma handler_skips:
  "loadedUrl ctx = Some l \<Longrightarrow> includes_str l ''/e/'' \<Longrightarrow> snd (requestHandler ctx) = Skipped"
  by (cases l) (simp_all add: requestHandler_def truthy_def)

lemma handler_extracted:
  assumes "snd (requestHandler ctx) = Extracted item links"
  shows "item_url item = loadedUrl ctx"
    and "item_title item = page_title ctx"
    and "item_timestamp item = now ctx"
    and "\<exists>body. document_body ctx = Some body \<and> item_html item = innerHTML (sanitize body)"
    and "links = enqueueLinks (anchors ctx)"
    and "\<not> (truthy (loadedUrl ctx) \<and> includes_str (the (loadedUrl ctx)) ''/e/'')"
  using assms
  by (auto simp: requestHandler_def page_evaluate_def Let_def split: if_splits option.splits sum.splits)

lemma handler_extracted_url:
  assumes "snd (requestHandler ctx) = Extracted item links" and "item_url item = Some l"
  shows "\<not> includes_str l ''/e/''"
proof
  assume inc: "includes_str l ''/e/''"
  then have "l \<noteq> []" by auto
  with assms inc handler_extracted(1,6) [OF assms(1)] show False
    by (simp add: truthy_def)
qed

lemma enqueueLinks_not_excluded: "l \<in> set (enqueueLinks links) \<Longrightarrow> \<not> exclude_matches l"
  by (simp add: enqueueLinks_def)

lemma fresh_links_not_excluded:
  "l \<in> set (fresh_links seen (snd (requestHandler ctx))) \<Longrightarrow> \<not> exclude_matches l"
proof (cases "snd (requestHandler ctx)")
  case (Extracted item links)
  assume "l \<in> set (fresh_links seen (snd (requestHandler ctx)))"
  with Extracted have "l \<in> set links" by (simp add: fresh_links_def)
  moreover from Extracted have "links = enqueueLinks (anchors ctx)"
    by (rule handler_extracted(5))
  ultimately show ?thesis by (simp add: enqueueLinks_not_excluded)
qed (simp_all add: fresh_links_def)

lemma crawl_requests_not_excluded:
  "\<forall>q \<in> set queue. \<not> exclude_matches q \<Longrightarrow> (u, out) \<in> set (crawl web budget queue seen) \<Longrightarrow>
     \<not> exclude_matches u"
proof (induction budget arbitrary: queue seen)
  case 0
  then show ?case by simp
next
  case (Suc budget)
  show ?case
  proof (cases queue)
    case Nil
    with Suc.prems show ?thesis by simp
  next
    case (Cons v rest)
    show ?thesis
    proof (cases "web v")
      case None
      with Suc.prems Cons have "u = v \<or> (u, out) \<in> set (crawl web budget rest seen)"
        by auto
      with Suc.IH [of rest seen] Suc.prems(1) Cons show ?thesis by auto
    next
      case (Some ctx)
      let ?new = "fresh_links seen (snd (requestHandler ctx))"
      from Suc.prems(2) Cons Some
      have "u = v \<or> (u, out) \<in> set (crawl web budget (rest @ ?new) (seen @ ?new))"
        by (auto simp: Let_def)
      moreover have "\<forall>q \<in> set (rest @ ?new). \<not> exclude_matches q"
        using Suc.prems(1) Cons fresh_links_not_excluded by auto
      ultimately show ?thesis
        using Suc.IH [of "rest @ ?new" "seen @ ?new"] Suc.prems(1) Cons by auto
    qed
  qed
qed

lemma crawl_outcomes:
  "(u, out) \<in> set (crawl web budget queue seen) \<Longrightarrow>
     (web u = None \<and> out = Failed NavigationError) \<or>
     (\<exists>ctx. web u = Some ctx \<and> out = snd (requestHandler ctx))"
proof (induction budget arbitrary: queue seen)
  case 0
  then show ?case by simp
next
  case (Suc budget)
  show ?case
  proof (cases queue)
    case Nil
    with Suc.prems show ?thesis by simp
  next
    case (Cons v rest)
    show ?thesis
    proof (cases "web v")
      case None
      with Suc.prems Cons
      have "(u = v \<and> out = Failed NavigationError) \<or> (u, out) \<in> set (crawl web budget rest seen)"
        by auto
      with Suc.IH [of rest seen] None show ?thesis by auto
    next
      case (Some ctx)
      let ?new = "fresh_links seen (snd (requestHandler ctx))"
      from Suc.prems Cons Some
      have "(u = v \<and> out = snd (requestHandler ctx)) \<or>
            (u, out) \<in> set (crawl web budget (rest @ ?new) (seen @ ?new))"
        by (auto simp: Let_def)
      with Suc.IH [of "rest @ ?new" "seen @ ?new"] Some show ?thesis by auto
    qed
  qed
qed

section \<open>Properties of the sanitizer\<close>




text \<open>
  C4, as the specification states it: the example fragment is sanitized to
  \<^verbatim>\<open><div><a href="/x">Go</a></div>\<close>. The markup returned is another one.
\<close>

theorem sanitize_example_counterexample:
  "page_evaluate (Some example_fragment) \<noteq> Inr ''<div><a href=\"/x\">Go</a></div>''"
  by code_simp

text \<open>
  C4, amended. The fragment \<^verbatim>\<open><div><span></span><p>  </p><a href="/x">Go</a></div>\<close>
  is sanitized to \<^verbatim>\<open><div><p>  </p><a href="/x">Go</a></div>\<close>: the empty span is
  removed, the paragraph of white space and the anchor are kept.
\<close>

theorem sanitize_example:
  "innerHTML example_fragment = ''<div><span></span><p>  </p><a href=\"/x\">Go</a></div>'' \<and>
   page_evaluate (Some example_fragment) = Inr ''<div><p>  </p><a href=\"/x\">Go</a></div>''"
  by code_simp

section \<open>Properties of the formatter\<close>

text \<open>
  C3. \<open>formatForLLM\<close> is a function of the nine fields of the record: two records that
  agree on them, whatever else they carry, are rendered to the same string (or raise
  the same error).
\<close>

theorem format_deterministic:
  assumes "title d1 = title d2" and "url d1 = url d2" and "textContent d1 = textContent d2"
    and "headings d1 = headings d2" and "linkElements d1 = linkElements d2"
    and "inputElements d1 = inputElements d2" and "buttonElements d1 = buttonElements d2"
    and "formElements d1 = formElements d2" and "interactiveElements d1 = interactiveElements d2"
  shows "formatForLLM unicode d1 = formatForLLM unicode d2"
proof -
  have "add_title_url d1 = add_title_url d2"
    using assms by (simp add: add_title_url_def)
  moreover have "add_page_structure d1 f = add_page_structure d2 f" for f
    using assms by (simp add: add_page_structure_def)
  moreover have "add_navigation d1 f = add_navigation d2 f" for f
    using assms by (simp add: add_navigation_def)
  moreover have "add_interactive unicode d1 f = add_interactive unicode d2 f" for f
    using assms by (simp add: add_interactive_def)
  moreover have "add_inputs unicode d1 f = add_inputs unicode d2 f" for f
    using assms by (simp add: add_inputs_def)
  moreover have "add_buttons unicode d1 f = add_buttons unicode d2 f" for f
    using assms by (simp add: add_buttons_def)
  moreover have "add_forms unicode d1 f = add_forms unicode d2 f" for f
    using assms by (simp add: add_forms_def)
  ultimately show ?thesis
    using assms(3) by (simp add: formatForLLM_def split: sum.splits)
qed

theorem format_deterministic_witness:
  "formatForLLM ascii_uppercase (PageData.extend events_page True) = formatForLLM ascii_uppercase events_page \<and>
   formatForLLM ascii_uppercase events_page =
     Inr ''# T\<newline>\<newline>**URL:** u\<newline>\<newline>## Page Structure\<newline>\<newline>- Events\<newline>  - Upcoming\<newline>\<newline>## Page Content\<newline>\<newline>body''"
proof -
  have "formatForLLM ascii_uppercase (PageData.extend events_page True) = formatForLLM ascii_uppercase events_page"
    by (rule format_deterministic) (simp_all add: PageData.defs)
  moreover have "formatForLLM ascii_uppercase events_page =
     Inr ''# T\<newline>\<newline>**URL:** u\<newline>\<newline>## Page Structure\<newline>\<newline>- Events\<newline>  - Upcoming\<newline>\<newline>## Page Content\<newline>\<newline>body''"
    by code_simp
  ultimately show ?thesis by simp
qed

text \<open>
  C5, at a record whose only populated section is "Input Elements": the last line of the
  section is followed at once by the heading "Page Content", with no blank line between
  them.
\<close>

theorem input_section_no_blank_line:
  "formatForLLM unicode input_only_page =
     Inr ''# T\<newline>\<newline>**URL:** u\<newline>\<newline>## Input Elements\<newline>\<newline>- **TEXT**: \" Name\"\<newline>## Page Content\<newline>\<newline>body''"
  by code_simp






text \<open>
  C9. When no heading has a level below 1, the "Page Structure" section is its heading,
  one line for each heading, indented by two spaces for each level above the first, and
  a blank line. For the headings Events (level 1) and Upcoming (level 2) the section is
  \<open>"## Page Structure\n\n- Events\n  - Upcoming\n\n"\<close>.
\<close>

theorem page_structure_rendering:
  "(list_all (\<lambda>h. 1 \<le> h_level h) (headings d) \<longrightarrow>
      add_page_structure d formatted =
        Inr (formatted @
             (if headings d = [] then []
              else ''## Page Structure\<newline>\<newline>'' @ concat (map heading_line (headings d)) @ ''\<newline>''))) \<and>
   heading_line h = replicate (2 * nat (h_level h - 1)) CHR '' '' @ ''- '' @ h_text h @ ''\<newline>'' \<and>
   (headings d = [\<lparr>h_level = 1, h_text = ''Events'', h_id = i1\<rparr>,
                  \<lparr>h_level = 2, h_text = ''Upcoming'', h_id = i2\<rparr>] \<longrightarrow>
      add_page_structure d formatted =
        Inr (formatted @ ''## Page Structure\<newline>\<newline>- Events\<newline>  - Upcoming\<newline>\<newline>''))"
proof (intro conjI impI)
  assume "list_all (\<lambda>h. 1 \<le> h_level h) (headings d)"
  then show "add_page_structure d formatted =
        Inr (formatted @
             (if headings d = [] then []
              else ''## Page Structure\<newline>\<newline>'' @ concat (map heading_line (headings d)) @ ''\<newline>''))"
    by (simp add: add_page_structure_def headings_loop_lines)
next
  show "heading_line h = replicate (2 * nat (h_level h - 1)) CHR '' '' @ ''- '' @ h_text h @ ''\<newline>''"
    by (simp add: heading_line_def)
next
  assume "headings d = [\<lparr>h_level = 1, h_text = ''Events'', h_id = i1\<rparr>,
                  \<lparr>h_level = 2, h_text = ''Upcoming'', h_id = i2\<rparr>]"
  then show "add_page_structure d formatted =
        Inr (formatted @ ''## Page Structure\<newline>\<newline>- Events\<newline>  - Upcoming\<newline>\<newline>'')"
    by (simp add: add_page_structure_def repeat_def)
qed

theorem page_structure_rendering_witness:
  "list_all (\<lambda>h. 1 \<le> h_level h) (headings events_page) \<and>
   headings events_page = [\<lparr>h_level = 1, h_text = ''Events'', h_id = None\<rparr>,
                           \<lparr>h_level = 2, h_text = ''Upcoming'', h_id = None\<rparr>] \<and>
   add_page_structure events_page ''X'' =
     Inr ''X## Page Structure\<newline>\<newline>- Events\<newline>  - Upcoming\<newline>\<newline>'' \<and>
   formatForLLM ascii_uppercase events_page =
     Inr ''# T\<newline>\<newline>**URL:** u\<newline>\<newline>## Page Structure\<newline>\<newline>- Events\<newline>  - Upcoming\<newline>\<newline>## Page Content\<newline>\<newline>body''"
proof -
  have hs: "headings events_page = [\<lparr>h_level = 1, h_text = ''Events'', h_id = None\<rparr>,
                           \<lparr>h_level = 2, h_text = ''Upcoming'', h_id = None\<rparr>]"
    by (simp add: events_page_def)
  have lv: "list_all (\<lambda>h. 1 \<le> h_level h) (headings events_page)"
    by (simp add: hs)
  have fm: "formatForLLM ascii_uppercase events_page =
     Inr ''# T\<newline>\<newline>**URL:** u\<newline>\<newline>## Page Structure\<newline>\<newline>- Events\<newline>  - Upcoming\<newline>\<newline>## Page Content\<newline>\<newline>body''"
    by code_simp
  from page_structure_rendering [of events_page "''X''" undefined None None] hs lv fm
  show ?thesis by (simp add: heading_line_def numeral_2_eq_2)
qed

section \<open>Properties of the handler and the crawl\<close>

text \<open>
  C2. A loaded URL that matches the exclusion pattern makes the handler return before the
  extraction; \<open>enqueueLinks\<close> hands on no URL that matches it; and in every run of the
  crawl, whatever the site answers and whatever the budget, a request that ends
  \<open>Extracted\<close> has a URL that does not match the pattern, and so has the loaded URL
  written in its record, which does not even contain \<open>/e/\<close>.
\<close>

theorem excluded_never_extracted:
  "(loadedUrl ctx = Some l \<and> exclude_matches l \<longrightarrow> snd (requestHandler ctx) = Skipped) \<and>
   list_all (\<lambda>u. \<not> exclude_matches u) (enqueueLinks links) \<and>
   ((u, Extracted item links') \<in> set (main web) \<longrightarrow>
      \<not> exclude_matches u \<and>
      (\<forall>r. item_url item = Some r \<longrightarrow> \<not> exclude_matches r \<and> \<not> includes_str r ''/e/''))"
proof (intro conjI impI allI)
  assume "loadedUrl ctx = Some l \<and> exclude_matches l"
  then show "snd (requestHandler ctx) = Skipped"
    using handler_skips exclude_matches_includes by blast
next
  show "list_all (\<lambda>u. \<not> exclude_matches u) (enqueueLinks links)"
    by (simp add: enqueueLinks_def list_all_iff)
next
  assume run: "(u, Extracted item links') \<in> set (main web)"
  have "\<not> exclude_matches start_url"
    by (simp add: exclude_matches_def exclude_literal_def start_url_def startsWith_def)
  with run show "\<not> exclude_matches u"
    using crawl_requests_not_excluded [of "[start_url]" u "Extracted item links'" web]
    by (simp add: main_def)
next
  fix r
  assume run: "(u, Extracted item links') \<in> set (main web)" and r: "item_url item = Some r"
  from crawl_outcomes [OF run [unfolded main_def]]
  obtain ctx' where "snd (requestHandler ctx') = Extracted item links'"
    by auto
  then have "\<not> includes_str r ''/e/''" using r by (rule handler_extracted_url)
  then show "\<not> exclude_matches r" using exclude_matches_includes by blast
next
  fix r
  assume run: "(u, Extracted item links') \<in> set (main web)" and r: "item_url item = Some r"
  from crawl_outcomes [OF run [unfolded main_def]]
  obtain ctx' where "snd (requestHandler ctx') = Extracted item links'"
    by auto
  then show "\<not> includes_str r ''/e/''" using r by (rule handler_extracted_url)
qed

theorem excluded_never_extracted_witness:
  "main example_web =
     [(''https://qrticket.app/dashboard'',
       Extracted \<lparr>item_title = ''Dashboard'', item_url = Some ''https://qrticket.app/dashboard'',
                  item_timestamp = ''2025-01-01T00:00:00.000Z'',
                  item_html = ''<div><p>  </p><a href=\"/x\">Go</a></div>''\<rparr>
                 [''https://qrticket.app/events'']),
      (''https://qrticket.app/events'', Skipped)] \<and>
   loadedUrl redirected_context = Some ''https://qrticket.app/e/7'' \<and>
   exclude_matches ''https://qrticket.app/e/7'' \<and>
   snd (requestHandler redirected_context) = Skipped \<and>
   \<not> exclude_matches ''https://qrticket.app/dashboard'' \<and>
   \<not> includes_str ''https://qrticket.app/dashboard'' ''/e/''"
proof -
  have run: "main example_web =
     [(''https://qrticket.app/dashboard'',
       Extracted \<lparr>item_title = ''Dashboard'', item_url = Some ''https://qrticket.app/dashboard'',
                  item_timestamp = ''2025-01-01T00:00:00.000Z'',
                  item_html = ''<div><p>  </p><a href=\"/x\">Go</a></div>''\<rparr>
                 [''https://qrticket.app/events'']),
      (''https://qrticket.app/events'', Skipped)]"
    by code_simp
  have l: "loadedUrl redirected_context = Some ''https://qrticket.app/e/7''"
    by (simp add: redirected_context_def)
  have m: "exclude_matches ''https://qrticket.app/e/7''"
    by code_simp
  from excluded_never_extracted
         [of redirected_context "''https://qrticket.app/e/7''" "[]" "''https://qrticket.app/dashboard''"
             "\<lparr>item_title = ''Dashboard'', item_url = Some ''https://qrticket.app/dashboard'',
               item_timestamp = ''2025-01-01T00:00:00.000Z'',
               item_html = ''<div><p>  </p><a href=\"/x\">Go</a></div>''\<rparr>"
             "[''https://qrticket.app/events'']" example_web]
       run l m
  show ?thesis by simp
qed

text \<open>
  C8, as the specification states it: the rendering of the page record by the formatter
  is handed on with the pushed record. For the dashboard page of the example site it is
  none of the strings that the handler hands on.
\<close>

theorem pushed_record_counterexample:
  "formatForLLM ascii_uppercase dashboard_record =
     Inr ''# Dashboard\<newline>\<newline>**URL:** https://qrticket.app/dashboard\<newline>\<newline>## Available Navigation\<newline>\<newline>- Go: /x\<newline>\<newline>## Page Content\<newline>\<newline>Go'' \<and>
   ''# Dashboard\<newline>\<newline>**URL:** https://qrticket.app/dashboard\<newline>\<newline>## Available Navigation\<newline>\<newline>- Go: /x\<newline>\<newline>## Page Content\<newline>\<newline>Go''
     \<notin> set (emitted (requestHandler dashboard_context))"
  by code_simp

text \<open>
  C8, amended. When the handler reaches the extraction, the record it pushes is exactly
  \<open>{title, url, timestamp, html}\<close>: the title of the page, the loaded URL, the ISO string
  of the clock at that moment, and the serialization of the sanitized body. Besides this
  record the handler hands on one log line and the enqueued links, and nothing else: no
  page record is built and the formatter is not called.
\<close>

theorem pushed_record_shape:
  "snd (requestHandler ctx) = Extracted item links \<longrightarrow>
     (\<exists>body. document_body ctx = Some body \<and>
        item = \<lparr>item_title = page_title ctx, item_url = loadedUrl ctx,
                item_timestamp = now ctx, item_html = innerHTML (sanitize body)\<rparr>) \<and>
     links = enqueueLinks (anchors ctx) \<and>
     emitted (requestHandler ctx) =
       [''Title of '' @ template_url (loadedUrl ctx) @ '' is '' @ [CHR 0x27] @ page_title ctx @ [CHR 0x27],
        page_title ctx, template_url (loadedUrl ctx), now ctx, item_html item]
       @ enqueueLinks (anchors ctx)"
proof
  assume ex: "snd (requestHandler ctx) = Extracted item links"
  from handler_extracted(4) [OF ex] obtain body
    where body: "document_body ctx = Some body" "item_html item = innerHTML (sanitize body)"
    by blast
  have item: "item = \<lparr>item_title = page_title ctx, item_url = loadedUrl ctx,
                item_timestamp = now ctx, item_html = innerHTML (sanitize body)\<rparr>"
    using handler_extracted(1,2,3) [OF ex] body(2) by simp
  have links: "links = enqueueLinks (anchors ctx)"
    using ex by (rule handler_extracted(5))
  have "fst (requestHandler ctx) =
          [''Title of '' @ template_url (loadedUrl ctx) @ '' is '' @ [CHR 0x27] @ page_title ctx @ [CHR 0x27]]"
    using ex by (auto simp: requestHandler_def Let_def split: if_splits sum.splits)
  then have "emitted (requestHandler ctx) =
       [''Title of '' @ template_url (loadedUrl ctx) @ '' is '' @ [CHR 0x27] @ page_title ctx @ [CHR 0x27],
        page_title ctx, template_url (loadedUrl ctx), now ctx, item_html item]
       @ enqueueLinks (anchors ctx)"
    using ex item links by (simp add: emitted_def)
  with body(1) item links
  show "(\<exists>body. document_body ctx = Some body \<and>
        item = \<lparr>item_title = page_title ctx, item_url = loadedUrl ctx,
                item_timestamp = now ctx, item_html = innerHTML (sanitize body)\<rparr>) \<and>
     links = enqueueLinks (anchors ctx) \<and>
     emitted (requestHandler ctx) =
       [''Title of '' @ template_url (loadedUrl ctx) @ '' is '' @ [CHR 0x27] @ page_title ctx @ [CHR 0x27],
        page_title ctx, template_url (loadedUrl ctx), now ctx, item_html item]
       @ enqueueLinks (anchors ctx)"
    by blast
qed

theorem pushed_record_shape_witness:
  "snd (requestHandler dashboard_context) =
     Extracted \<lparr>item_title = ''Dashboard'', item_url = Some ''https://qrticket.app/dashboard'',
                item_timestamp = ''2025-01-01T00:00:00.000Z'',
                item_html = ''<div><p>  </p><a href=\"/x\">Go</a></div>''\<rparr>
               [''https://qrticket.app/events''] \<and>
   emitted (requestHandler dashboard_context) =
     [''Title of https://qrticket.app/dashboard is '' @ [CHR 0x27] @ ''Dashboard'' @ [CHR 0x27],
      ''Dashboard'', ''https://qrticket.app/dashboard'', ''2025-01-01T00:00:00.000Z'',
      ''<div><p>  </p><a href=\"/x\">Go</a></div>'', ''https://qrticket.app/events'']"
proof -
  have ex: "snd (requestHandler dashboard_context) =
     Extracted \<lparr>item_title = ''Dashboard'', item_url = Some ''https://qrticket.app/dashboard'',
                item_timestamp = ''2025-01-01T00:00:00.000Z'',
                item_html = ''<div><p>  </p><a href=\"/x\">Go</a></div>''\<rparr>
               [''https://qrticket.app/events'']"
    by code_simp
  have an: "enqueueLinks (anchors dashboard_context) = [''https://qrticket.app/events'']"
    by code_simp
  from pushed_record_shape [of dashboard_context _ "[''https://qrticket.app/events'']"] ex an
  show ?thesis
    by (simp add: dashboard_context_def template_url_def)
qed

text \<open>
  C10, as stated: the enqueue-time filter matches only URLs that begin with
  \<open>https://qrticket.app/e/\<close>. It matches a URL that holds that text further on.
\<close>

theorem enqueue_filter_counterexample:
  "exclude_matches ''https://qrticket.app/a?next=https://qrticket.app/e/1'' \<and>
   \<not> startsWith ''https://qrticket.app/a?next=https://qrticket.app/e/1'' ''https://qrticket.app/e/''"
  by code_simp

text \<open>
  C10, amended. The two checks are different predicates. The handler skips exactly the
  loaded URLs that contain \<open>/e/\<close> somewhere; the enqueue-time filter drops exactly the
  URLs that contain \<open>https://qrticket.app/e/\<close> somewhere (the expression has no
  anchor). Every URL the filter drops would be skipped, and not the other way round:
  \<open>https://qrticket.app/dashboard/e/1\<close> passes the filter and is skipped once loaded.
\<close>

theorem exclusion_checks_differ:
  "(snd (requestHandler ctx) = Skipped \<longleftrightarrow> (\<exists>l. loadedUrl ctx = Some l \<and> includes_str l ''/e/'')) \<and>
   (includes_str l ''/e/'' \<longleftrightarrow> (\<exists>a b. l = a @ ''/e/'' @ b)) \<and>
   (exclude_matches u \<longleftrightarrow> (\<exists>a b. u = a @ ''https://qrticket.app/e/'' @ b)) \<and>
   (exclude_matches u \<longrightarrow> includes_str u ''/e/'') \<and>
   enqueueLinks [''https://qrticket.app/dashboard/e/1''] = [''https://qrticket.app/dashboard/e/1''] \<and>
   includes_str ''https://qrticket.app/dashboard/e/1'' ''/e/''"
proof (intro conjI)
  show "snd (requestHandler ctx) = Skipped \<longleftrightarrow> (\<exists>l. loadedUrl ctx = Some l \<and> includes_str l ''/e/'')"
  proof
    assume "snd (requestHandler ctx) = Skipped"
    then have "truthy (loadedUrl ctx) \<and> includes_str (the (loadedUrl ctx)) ''/e/''"
      by (auto simp: requestHandler_def Let_def split: if_splits sum.splits)
    then show "\<exists>l. loadedUrl ctx = Some l \<and> includes_str l ''/e/''"
      by (cases "loadedUrl ctx") (simp_all add: truthy_def)
  next
    assume "\<exists>l. loadedUrl ctx = Some l \<and> includes_str l ''/e/''"
    then show "snd (requestHandler ctx) = Skipped" using handler_skips by blast
  qed
  show "includes_str l ''/e/'' \<longleftrightarrow> (\<exists>a b. l = a @ ''/e/'' @ b)"
    by (rule includes_str_iff)
  show "exclude_matches u \<longleftrightarrow> (\<exists>a b. u = a @ ''https://qrticket.app/e/'' @ b)"
    using includes_str_iff [of u exclude_literal]
    by (simp add: exclude_matches_def exclude_literal_def)
  show "exclude_matches u \<longrightarrow> includes_str u ''/e/''"
    using exclude_matches_includes by blast
  show "enqueueLinks [''https://qrticket.app/dashboard/e/1''] = [''https://qrticket.app/dashboard/e/1'']"
    by code_simp
  show "includes_str ''https://qrticket.app/dashboard/e/1'' ''/e/''"
    by code_simp
qed

theorem exclusion_checks_differ_witness:
  "exclude_matches ''https://qrticket.app/e/7'' \<and>
   includes_str ''https://qrticket.app/e/7'' ''/e/'' \<and>
   snd (requestHandler redirected_context) = Skipped"
proof -
  have m: "exclude_matches ''https://qrticket.app/e/7''"
    by code_simp
  have l: "loadedUrl redirected_context = Some ''https://qrticket.app/e/7''"
    by (simp add: redirected_context_def)
  note all = exclusion_checks_differ
               [of redirected_context "''https://qrticket.app/e/7''" "''https://qrticket.app/e/7''"]
  from all m have i: "includes_str ''https://qrticket.app/e/7'' ''/e/''"
    by blast
  from all have "snd (requestHandler redirected_context) = Skipped \<longleftrightarrow>
                   (\<exists>l. loadedUrl redirected_context = Some l \<and> includes_str l ''/e/'')"
    by (rule conjunct1)
  with l i have "snd (requestHandler redirected_context) = Skipped"
    by blast
  with m i show ?thesis by blast
qed

end
